theory Spec2Isabelle
  imports Main
begin

section \<open>JavaScript values\<close>

text \<open>
  The response bodies that reach the client are whatever the server sent, parsed as JSON
  by axios; the source reads them with property accesses and truthiness tests. They are
  modelled as dynamically typed values. An object is the list of its own properties. A
  number is kept as the text the runtime prints for it (\<open>String(n)\<close>), which identifies
  it: \<open>5\<close>, \<open>-2\<close>, \<open>1.5\<close>, \<open>1e+21\<close>; zero, of either sign, is \<open>0\<close>. The program
  does nothing with a number but test it for truth and convert it to a string.
\<close>

datatype jsval =
    Undefined
  | Null
  | Bool bool
  | Num string
  | Str string
  | Arr "jsval list"
  | Obj "(string \<times> jsval) list"

text \<open>What a rejected promise carries: \<open>new Error(message)\<close>, or the \<open>TypeError\<close> the
  runtime throws when a property of \<open>null\<close> or \<open>undefined\<close> is read or a value has no
  conversion to a string.\<close>

datatype js_error = Error string | TypeError

text \<open>\<open>if (v)\<close>, \<open>!!v\<close>: the falsy values are \<open>undefined\<close>, \<open>null\<close>, \<open>false\<close>, zero,
  \<open>NaN\<close> and the empty string.\<close>

fun truthy :: "jsval \<Rightarrow> bool" where
  "truthy Undefined = False"
| "truthy Null = False"
| "truthy (Bool b) = b"
| "truthy (Num n) = (n \<noteq> ''0'' \<and> n \<noteq> ''NaN'')"
| "truthy (Str s) = (s \<noteq> [])"
| "truthy (Arr xs) = True"
| "truthy (Obj ps) = True"

text \<open>\<open>a || b\<close> and \<open>a && b\<close>, both operands already evaluated.\<close>

definition js_or :: "jsval \<Rightarrow> jsval \<Rightarrow> jsval" where
  "js_or a b = (if truthy a then a else b)"

text \<open>\<open>v.p\<close> for the property names this program reads (\<open>code\<close>, \<open>msg\<close>, \<open>data\<close>,
  \<open>access_token\<close>): a \<open>TypeError\<close> on \<open>null\<close> and \<open>undefined\<close>, the property's value on an
  object that has it, \<open>undefined\<close> in every other case.\<close>

fun getProp :: "jsval \<Rightarrow> string \<Rightarrow> js_error + jsval" where
  "getProp Undefined p = Inl TypeError"
| "getProp Null p = Inl TypeError"
| "getProp (Obj ps) p = Inr (case map_of ps p of None \<Rightarrow> Undefined | Some v \<Rightarrow> v)"
| "getProp v p = Inr Undefined"

text \<open>The decimal digits of a status code, as a template literal renders them.\<close>

fun show_nat :: "nat \<Rightarrow> string" where
  "show_nat n =
     (if n < 10 then [''0123456789'' ! n]
      else show_nat (n div 10) @ [''0123456789'' ! (n mod 10)])"

declare show_nat.simps [simp del]

fun join_comma :: "string list \<Rightarrow> string" where
  "join_comma [] = []"
| "join_comma [s] = s"
| "join_comma (s # t # ss) = s @ '','' @ join_comma (t # ss)"

text \<open>
  The string conversion applied by \<open>new Error(v)\<close> and by \<open>localStorage.setItem\<close>. An
  object without a property \<open>toString\<close> of its own is converted by the inherited method;
  one that has such a property, which in a parsed body is never a function, cannot be
  converted, and the conversion throws a \<open>TypeError\<close>. An array joins the conversions of
  its elements with commas, \<open>null\<close> and \<open>undefined\<close> elements as empty strings, and throws
  where an element does.
\<close>

fun ToString :: "jsval \<Rightarrow> js_error + string"
  and ToStrings :: "jsval list \<Rightarrow> js_error + string list" where
  "ToString Undefined = Inr ''undefined''"
| "ToString Null = Inr ''null''"
| "ToString (Bool b) = Inr (if b then ''true'' else ''false'')"
| "ToString (Num n) = Inr n"
| "ToString (Str s) = Inr s"
| "ToString (Arr xs) =
     (case ToStrings xs of Inl exn \<Rightarrow> Inl exn | Inr ss \<Rightarrow> Inr (join_comma ss))"
| "ToString (Obj ps) =
     (case map_of ps ''toString'' of
        None \<Rightarrow> Inr ''[object Object]''
      | Some f \<Rightarrow> Inl TypeError)"
| "ToStrings [] = Inr []"
| "ToStrings (x # xs) =
     (case (if x = Undefined \<or> x = Null then Inr [] else ToString x) of
        Inl exn \<Rightarrow> Inl exn
      | Inr s \<Rightarrow>
          (case ToStrings xs of Inl exn \<Rightarrow> Inl exn | Inr ss \<Rightarrow> Inr (s # ss)))"

text \<open>\<open>new Error(v)\<close>: the error made of the converted message, or what the conversion
  threw; without a message (\<open>undefined\<close>) the error's message is empty.\<close>

definition new_Error :: "jsval \<Rightarrow> js_error" where
  "new_Error v =
     (if v = Undefined then Error []
      else case ToString v of Inl exn \<Rightarrow> exn | Inr s \<Rightarrow> Error s)"

section \<open>The browser and the network\<close>

datatype payload = NoData | Json jsval | Form "(string \<times> string) list"

text \<open>The fields of \<open>AxiosRequestConfig\<close> that the program sets; \<open>req_data\<close> is its
  \<open>data\<close> field.\<close>

record config =
  url :: string
  "method" :: string
  headers :: "string \<rightharpoonup> string"
  params :: jsval
  req_data :: payload

record response =
  status :: nat
  data :: jsval

text \<open>The error object handed to the response interceptor: \<open>error.response\<close> (absent
  when no response arrived), whether \<open>error.request\<close> is set, and \<open>error.message\<close>.\<close>

record axios_error =
  response :: "response option"
  request :: bool
  message :: string

text \<open>
  The state the program reads and writes: the browser's \<open>localStorage\<close>, the values
  assigned to \<open>window.location.href\<close> (each assignment starts a navigation), the lines
  written with \<open>console.error\<close>, and the requests handed to the network.
\<close>

record world =
  localStorage :: "string \<rightharpoonup> string"
  location_href :: "string list"
  console :: "jsval list list"
  sent :: "config list"

definition getItem :: "world \<Rightarrow> string \<Rightarrow> string option" where
  "getItem w k = localStorage w k"

definition setItem :: "world \<Rightarrow> string \<Rightarrow> string \<Rightarrow> world" where
  "setItem w k v = w\<lparr>localStorage := (localStorage w)(k \<mapsto> v)\<rparr>"

definition removeItem :: "world \<Rightarrow> string \<Rightarrow> world" where
  "removeItem w k = w\<lparr>localStorage := (localStorage w)(k := None)\<rparr>"

definition set_location_href :: "world \<Rightarrow> string \<Rightarrow> world" where
  "set_location_href w href = w\<lparr>location_href := location_href w @ [href]\<rparr>"

definition console_error :: "world \<Rightarrow> jsval list \<Rightarrow> world" where
  "console_error w args = w\<lparr>console := console w @ [args]\<rparr>"

text \<open>Truthiness of what \<open>getItem\<close> returns, a string or \<open>null\<close>.\<close>

fun truthy_item :: "string option \<Rightarrow> bool" where
  "truthy_item None = False"
| "truthy_item (Some s) = (s \<noteq> [])"

text \<open>
  What happens to a request once the interceptors have passed it on, which is outside the
  repository: a response arrives, or the request goes out and nothing comes back (axios
  reports it with the given message), or an error with the given message is thrown before
  anything is sent.
\<close>

datatype outcome = Responded response | NoResponse string | NotSent string

type_synonym transport = "config \<Rightarrow> outcome"

text \<open>axios settles a response by its default \<open>validateStatus\<close>, which the instance does
  not override: a status from 200 to 299 fulfils the promise, any other rejects it with an
  error that holds the response.\<close>

definition validateStatus :: "nat \<Rightarrow> bool" where
  "validateStatus s = (200 \<le> s \<and> s < 300)"

definition settle :: "outcome \<Rightarrow> axios_error + response" where
  "settle out =
     (case out of
        Responded r \<Rightarrow>
          if validateStatus (status r) then Inr r
          else Inl \<lparr>response = Some r, request = True,
                    message = ''Request failed with status code '' @ show_nat (status r)\<rparr>
      | NoResponse m \<Rightarrow> Inl \<lparr>response = None, request = True, message = m\<rparr>
      | NotSent m \<Rightarrow> Inl \<lparr>response = None, request = False, message = m\<rparr>)"

section \<open>The API client\<close>

subsection \<open>Message texts\<close>

text \<open>The string literals of the response interceptor, as their UTF-8 bytes.\<close>

definition msg_bad_request :: string where
  \<comment> \<open>"request parameters are wrong"\<close>
  "msg_bad_request = [CHR 0xE8, CHR 0xAF, CHR 0xB7, CHR 0xE6, CHR 0xB1, CHR 0x82, CHR 0xE5,
     CHR 0x8F, CHR 0x82, CHR 0xE6, CHR 0x95, CHR 0xB0, CHR 0xE9, CHR 0x94, CHR 0x99, CHR 0xE8,
     CHR 0xAF, CHR 0xAF]"

definition msg_unauthorized :: string where
  \<comment> \<open>"unauthorized, please log in again"\<close>
  "msg_unauthorized = [CHR 0xE6, CHR 0x9C, CHR 0xAA, CHR 0xE6, CHR 0x8E, CHR 0x88, CHR 0xE6,
     CHR 0x9D, CHR 0x83, CHR 0xEF, CHR 0xBC, CHR 0x8C, CHR 0xE8, CHR 0xAF, CHR 0xB7, CHR 0xE9,
     CHR 0x87, CHR 0x8D, CHR 0xE6, CHR 0x96, CHR 0xB0, CHR 0xE7, CHR 0x99, CHR 0xBB, CHR 0xE5,
     CHR 0xBD, CHR 0x95]"

definition msg_forbidden :: string where
  \<comment> \<open>"no permission to access this resource"\<close>
  "msg_forbidden = [CHR 0xE6, CHR 0xB2, CHR 0xA1, CHR 0xE6, CHR 0x9C, CHR 0x89, CHR 0xE6,
     CHR 0x9D, CHR 0x83, CHR 0xE9, CHR 0x99, CHR 0x90, CHR 0xE8, CHR 0xAE, CHR 0xBF, CHR 0xE9,
     CHR 0x97, CHR 0xAE, CHR 0xE8, CHR 0xAF, CHR 0xA5, CHR 0xE8, CHR 0xB5, CHR 0x84, CHR 0xE6,
     CHR 0xBA, CHR 0x90]"

definition msg_not_found :: string where
  \<comment> \<open>"the requested resource does not exist"\<close>
  "msg_not_found = [CHR 0xE8, CHR 0xAF, CHR 0xB7, CHR 0xE6, CHR 0xB1, CHR 0x82, CHR 0xE7,
     CHR 0x9A, CHR 0x84, CHR 0xE8, CHR 0xB5, CHR 0x84, CHR 0xE6, CHR 0xBA, CHR 0x90, CHR 0xE4,
     CHR 0xB8, CHR 0x8D, CHR 0xE5, CHR 0xAD, CHR 0x98, CHR 0xE5, CHR 0x9C, CHR 0xA8]"

definition msg_server_error :: string where
  \<comment> \<open>"internal server error"\<close>
  "msg_server_error = [CHR 0xE6, CHR 0x9C, CHR 0x8D, CHR 0xE5, CHR 0x8A, CHR 0xA1, CHR 0xE5,
     CHR 0x99, CHR 0xA8, CHR 0xE5, CHR 0x86, CHR 0x85, CHR 0xE9, CHR 0x83, CHR 0xA8, CHR 0xE9,
     CHR 0x94, CHR 0x99, CHR 0xE8, CHR 0xAF, CHR 0xAF]"

definition msg_request_failed :: "nat \<Rightarrow> string" where
  \<comment> \<open>the template literal "request failed (status)"\<close>
  "msg_request_failed s = [CHR 0xE8, CHR 0xAF, CHR 0xB7, CHR 0xE6, CHR 0xB1, CHR 0x82, CHR 0xE5,
     CHR 0xA4, CHR 0xB1, CHR 0xE8, CHR 0xB4, CHR 0xA5] @ '' ('' @ show_nat s @ '')''"

definition msg_network_error :: string where
  \<comment> \<open>"network error, please check the network connection"\<close>
  "msg_network_error = [CHR 0xE7, CHR 0xBD, CHR 0x91, CHR 0xE7, CHR 0xBB, CHR 0x9C, CHR 0xE9,
     CHR 0x94, CHR 0x99, CHR 0xE8, CHR 0xAF, CHR 0xAF, CHR 0xEF, CHR 0xBC, CHR 0x8C, CHR 0xE8,
     CHR 0xAF, CHR 0xB7, CHR 0xE6, CHR 0xA3, CHR 0x80, CHR 0xE6, CHR 0x9F, CHR 0xA5, CHR 0xE7,
     CHR 0xBD, CHR 0x91, CHR 0xE7, CHR 0xBB, CHR 0x9C, CHR 0xE8, CHR 0xBF, CHR 0x9E, CHR 0xE6,
     CHR 0x8E, CHR 0xA5]"

subsection \<open>The axios instance and its interceptors\<close>

text \<open>The instance is created with a default \<open>Content-Type\<close> header; a header given
  with the call overrides it.\<close>

definition default_headers :: "string \<rightharpoonup> string" where
  "default_headers = [''Content-Type'' \<mapsto> ''application/json'']"

definition mergeConfig :: "config \<Rightarrow> config" where
  "mergeConfig c = c\<lparr>headers := default_headers ++ headers c\<rparr>"

text \<open>The request interceptor: reads the token and, when it is truthy, sets the
  \<open>Authorization\<close> header.\<close>

definition requestFulfilled :: "world \<Rightarrow> config \<Rightarrow> config" where
  "requestFulfilled w c =
     (case getItem w ''token'' of
        None \<Rightarrow> c
      | Some token \<Rightarrow>
          if token \<noteq> []
          then c\<lparr>headers := (headers c)(''Authorization'' \<mapsto> ''Bearer '' @ token)\<rparr>
          else c)"

text \<open>The response interceptor on a fulfilled promise returns the response as it is.\<close>

definition responseFulfilled :: "response \<Rightarrow> response" where
  "responseFulfilled r = r"

text \<open>The common end of the response interceptor's error handler: log the message, then
  reject with a new \<open>Error\<close> made of it (or throw, when the message has no conversion).\<close>

definition reject :: "world \<Rightarrow> jsval \<Rightarrow> world \<times> (js_error + response)" where
  "reject w errorMessage =
     (console_error w [Str ''API Error:'', errorMessage], Inl (new_Error errorMessage))"

text \<open>
  The response interceptor on a rejected promise. Every arm of the \<open>switch\<close> starts by
  reading \<open>data.msg\<close>, which throws when the body is \<open>null\<close>; the read is written once, before
  the arms. In the arm for 401 the token is removed and the location assigned after that
  read. The text \<open>errorMessage\<close> starts with is overwritten on every path and does not
  appear.
\<close>

definition responseRejected :: "world \<Rightarrow> axios_error \<Rightarrow> world \<times> (js_error + response)" where
  "responseRejected w error =
     (case response error of
        Some r \<Rightarrow>
          (case getProp (data r) ''msg'' of
             Inl exn \<Rightarrow> (w, Inl exn)
           | Inr m \<Rightarrow>
               if status r = 400 then reject w (js_or m (Str msg_bad_request))
               else if status r = 401 then
                 reject (set_location_href (removeItem w ''token'') ''/login'')
                   (js_or m (Str msg_unauthorized))
               else if status r = 403 then reject w (js_or m (Str msg_forbidden))
               else if status r = 404 then reject w (js_or m (Str msg_not_found))
               else if status r = 500 then reject w (js_or m (Str msg_server_error))
               else reject w (js_or m (Str (msg_request_failed (status r)))))
      | None \<Rightarrow>
          if request error then reject w (Str msg_network_error)
          else reject w (Str (message error)))"

text \<open>One request through the instance: defaults merged, request interceptor, the
  network, then the response interceptor on whichever side the promise settled.\<close>

definition axiosInstance_request ::
  "transport \<Rightarrow> world \<Rightarrow> config \<Rightarrow> world \<times> (js_error + response)" where
  "axiosInstance_request T w c =
     (let c' = requestFulfilled w (mergeConfig c);
          out = T c';
          w' = (case out of NotSent m \<Rightarrow> w | _ \<Rightarrow> w\<lparr>sent := sent w @ [c']\<rparr>)
      in case settle out of
           Inr r \<Rightarrow> (w', Inr (responseFulfilled r))
         | Inl e \<Rightarrow> responseRejected w' e)"

subsection \<open>The four verbs\<close>

text \<open>Each verb awaits the instance and returns \<open>response.data\<close>.\<close>

definition response_data ::
  "world \<times> (js_error + response) \<Rightarrow> world \<times> (js_error + jsval)" where
  "response_data x = (case x of (w, Inl e) \<Rightarrow> (w, Inl e) | (w, Inr r) \<Rightarrow> (w, Inr (data r)))"

definition emptyConfig :: config where
  "emptyConfig = \<lparr>url = [], method = [], headers = Map.empty, params = Undefined,
     req_data = NoData\<rparr>"

definition apiClient_get ::
  "transport \<Rightarrow> world \<Rightarrow> string \<Rightarrow> config \<Rightarrow> world \<times> (js_error + jsval)" where
  "apiClient_get T w u c =
     response_data (axiosInstance_request T w (c\<lparr>url := u, method := ''get''\<rparr>))"

definition apiClient_post ::
  "transport \<Rightarrow> world \<Rightarrow> string \<Rightarrow> payload \<Rightarrow> config \<Rightarrow> world \<times> (js_error + jsval)" where
  "apiClient_post T w u d c =
     response_data (axiosInstance_request T w (c\<lparr>url := u, method := ''post'', req_data := d\<rparr>))"

definition apiClient_put ::
  "transport \<Rightarrow> world \<Rightarrow> string \<Rightarrow> payload \<Rightarrow> config \<Rightarrow> world \<times> (js_error + jsval)" where
  "apiClient_put T w u d c =
     response_data (axiosInstance_request T w (c\<lparr>url := u, method := ''put'', req_data := d\<rparr>))"

definition apiClient_delete ::
  "transport \<Rightarrow> world \<Rightarrow> string \<Rightarrow> config \<Rightarrow> world \<times> (js_error + jsval)" where
  "apiClient_delete T w u c =
     response_data (axiosInstance_request T w (c\<lparr>url := u, method := ''delete''\<rparr>))"

section \<open>Login, logout and the presence check\<close>

record LoginRequest =
  username :: string
  password :: string

text \<open>\<open>login\<close>: post the form; when the body's \<open>data\<close> and its \<open>access_token\<close> are both
  truthy, store the token, which \<open>setItem\<close> converts to a string; return the body.\<close>

definition login :: "transport \<Rightarrow> world \<Rightarrow> LoginRequest \<Rightarrow> world \<times> (js_error + jsval)" where
  "login T w ps =
     (case apiClient_post T w ''/login''
             (Form [(''username'', username ps), (''password'', password ps)])
             (emptyConfig\<lparr>headers :=
                [''Content-Type'' \<mapsto> ''application/x-www-form-urlencoded'']\<rparr>) of
        (w1, Inl e) \<Rightarrow> (w1, Inl e)
      | (w1, Inr body) \<Rightarrow>
          (case getProp body ''data'' of
             Inl exn \<Rightarrow> (w1, Inl exn)
           | Inr d \<Rightarrow>
               if truthy d then
                 (case getProp d ''access_token'' of
                    Inl exn \<Rightarrow> (w1, Inl exn)
                  | Inr t \<Rightarrow>
                      if truthy t then
                        (case ToString t of
                           Inl exn \<Rightarrow> (w1, Inl exn)
                         | Inr s \<Rightarrow> (setItem w1 ''token'' s, Inr body))
                      else (w1, Inr body))
               else (w1, Inr body)))"

text \<open>\<open>logout\<close>: post, and in the \<open>finally\<close> block remove the token, whichever way the
  post went.\<close>

definition logout :: "transport \<Rightarrow> world \<Rightarrow> world \<times> (js_error + jsval)" where
  "logout T w =
     (case apiClient_post T w ''/logout'' NoData emptyConfig of
        (w1, res) \<Rightarrow> (removeItem w1 ''token'', res))"

definition isAuthenticated :: "world \<Rightarrow> bool" where
  "isAuthenticated w = (getItem w ''token'' \<noteq> None)"

section \<open>The navigation guard\<close>

text \<open>The target of a navigation, as the router hands it to the guard: the path that was
  asked for, the name of the route of the table that it matched, and
  \<open>to.meta.requiresAuth\<close>. The router is created without the options \<open>strict\<close> and
  \<open>sensitive\<close>, so a path matches a route of the table also with a slash at its end and in
  any letter case.\<close>

record route =
  path :: string
  name :: string
  requiresAuth :: jsval

text \<open>What the guard passes to \<open>next\<close>: nothing, or the name of a route to go to
  instead.\<close>

datatype navigation = Proceed | RedirectTo string

definition beforeEach :: "world \<Rightarrow> route \<Rightarrow> navigation" where
  "beforeEach w to =
     (let authenticated = truthy_item (getItem w ''token'') in
      if truthy (requiresAuth to) \<and> \<not> authenticated then RedirectTo ''login''
      else if path to = ''/login'' \<and> authenticated then RedirectTo ''dashboard''
      else Proceed)"

section \<open>The error taxonomy of the specification\<close>

text \<open>
  The source raises a bare \<open>Error\<close> with a message. The specification names seven causes
  and says which failure has which; \<open>spec_cause\<close> follows its words, to be compared with
  what the response interceptor does.
\<close>

datatype cause =
  BadRequest | Unauthorized | Forbidden | NotFound | ServerError | NetworkError | ConfigError

definition spec_cause :: "axios_error \<Rightarrow> cause option" where
  "spec_cause e =
     (case response e of
        Some r \<Rightarrow>
          if status r = 400 then Some BadRequest
          else if status r = 401 then Some Unauthorized
          else if status r = 403 then Some Forbidden
          else if status r = 404 then Some NotFound
          else if 500 \<le> status r \<and> status r < 600 then Some ServerError
          else None
      | None \<Rightarrow> if request e then Some NetworkError else Some ConfigError)"

section \<open>Concrete inputs\<close>

text \<open>A browser with nothing stored, and one that holds a token.\<close>

definition fresh_world :: world where
  "fresh_world = \<lparr>localStorage = Map.empty, location_href = [], console = [], sent = []\<rparr>"

definition logged_in :: "string \<Rightarrow> world" where
  "logged_in t = \<lparr>localStorage = [''token'' \<mapsto> t], location_href = [], console = [],
     sent = []\<rparr>"

text \<open>A server that answers every request with the same status and body.\<close>

definition answers :: "nat \<Rightarrow> jsval \<Rightarrow> transport" where
  "answers s d = (\<lambda>c. Responded \<lparr>status = s, data = d\<rparr>)"

text \<open>The error axios builds for a response with a status outside 200 to 299.\<close>

definition http_error :: "nat \<Rightarrow> jsval \<Rightarrow> axios_error" where
  "http_error s d = \<lparr>response = Some \<lparr>status = s, data = d\<rparr>, request = True,
     message = ''Request failed with status code '' @ show_nat s\<rparr>"

definition envelope :: "string \<Rightarrow> string \<Rightarrow> jsval \<Rightarrow> jsval" where
  "envelope c m d = Obj [(''code'', Num c), (''msg'', Str m), (''data'', d)]"

section \<open>Basic facts\<close>

lemma reject_world:
  "localStorage (fst (reject w m)) = localStorage w"
  "location_href (fst (reject w m)) = location_href w"
  "sent (fst (reject w m)) = sent w"
  "snd (reject w m) = Inl (new_Error m)"
  by (simp_all add: reject_def console_error_def)

lemma new_Error_js_or:
  "new_Error (js_or m (Str t)) =
     (case ToString (js_or m (Str t)) of Inl exn \<Rightarrow> exn | Inr s \<Rightarrow> Error s)"
  by (cases m) (simp_all add: new_Error_def js_or_def)

lemma responseRejected_raises: "\<exists>err. snd (responseRejected w e) = Inl err"
  by (simp add: responseRejected_def reject_world split: option.split sum.split)

lemma responseRejected_sent: "sent (fst (responseRejected w e)) = sent w"
  by (simp add: responseRejected_def reject_world removeItem_def set_location_href_def
      split: option.split sum.split)

lemma responseRejected_frame:
  assumes "\<forall>r. response e = Some r \<longrightarrow> status r \<noteq> 401"
  shows "localStorage (fst (responseRejected w e)) = localStorage w"
    and "location_href (fst (responseRejected w e)) = location_href w"
  using assms
  by (simp_all add: responseRejected_def reject_world split: option.split sum.split)

lemma request_fulfilled:
  assumes "T (requestFulfilled w (mergeConfig c)) = Responded r" "validateStatus (status r)"
  shows "axiosInstance_request T w c =
           (w\<lparr>sent := sent w @ [requestFulfilled w (mergeConfig c)]\<rparr>, Inr r)"
  using assms by (simp add: axiosInstance_request_def settle_def responseFulfilled_def Let_def)

lemma request_sent:
  "sent (fst (axiosInstance_request T w c)) =
     sent w @ (case T (requestFulfilled w (mergeConfig c)) of
                 NotSent m \<Rightarrow> []
               | _ \<Rightarrow> [requestFulfilled w (mergeConfig c)])"
  by (simp add: axiosInstance_request_def Let_def responseRejected_sent
      split: outcome.split sum.split)

lemma response_data_simps:
  "fst (response_data x) = fst x"
  "snd (response_data x) = map_sum id data (snd x)"
  by (cases x; cases "snd x"; simp add: response_data_def)+

text \<open>The four verbs differ in the method, the address and the data they put into the
  request; the headers are the caller's.\<close>

lemma verb_cases:
  assumes "x \<in> {apiClient_get T w u c, apiClient_post T w u d c, apiClient_put T w u d c,
                 apiClient_delete T w u c}"
  obtains c' where "x = response_data (axiosInstance_request T w c')" "headers c' = headers c"
  using assms
  by (auto simp: apiClient_get_def apiClient_post_def apiClient_put_def apiClient_delete_def)

lemma requestFulfilled_headers:
  "headers (requestFulfilled w c) =
     (case getItem w ''token'' of
        None \<Rightarrow> headers c
      | Some t \<Rightarrow>
          if t \<noteq> [] then (headers c)(''Authorization'' \<mapsto> ''Bearer '' @ t) else headers c)"
  by (simp add: requestFulfilled_def split: option.split)

lemma verb_success:
  assumes "\<forall>c. T c = Responded r" "validateStatus (status r)"
    and "x \<in> {apiClient_get T w u c, apiClient_post T w u d c, apiClient_put T w u d c,
                 apiClient_delete T w u c}"
  shows "snd x = Inr (data r)" "localStorage (fst x) = localStorage w"
    "location_href (fst x) = location_href w" "console (fst x) = console w"
proof -
  from assms(3) obtain c' where x: "x = response_data (axiosInstance_request T w c')"
    by (rule verb_cases)
  have "axiosInstance_request T w c' =
          (w\<lparr>sent := sent w @ [requestFulfilled w (mergeConfig c')]\<rparr>, Inr r)"
    using assms(1,2) by (intro request_fulfilled) simp_all
  then show "snd x = Inr (data r)" "localStorage (fst x) = localStorage w"
    "location_href (fst x) = location_href w" "console (fst x) = console w"
    by (simp_all add: x response_data_def)
qed

lemma verb_failure_raised:
  assumes "\<forall>c r. T c = Responded r \<longrightarrow> \<not> validateStatus (status r)"
    and "x \<in> {apiClient_get T w u c, apiClient_post T w u d c, apiClient_put T w u d c,
                 apiClient_delete T w u c}"
  shows "\<exists>err. snd x = Inl err"
proof -
  from assms(2) obtain c' where x: "x = response_data (axiosInstance_request T w c')"
    by (rule verb_cases)
  have "\<exists>e w'. axiosInstance_request T w c' = responseRejected w' e"
    using assms(1)
    by (auto simp: axiosInstance_request_def Let_def settle_def split: outcome.split)
  then obtain e w' where "axiosInstance_request T w c' = responseRejected w' e"
    by blast
  moreover obtain err where "snd (responseRejected w' e) = Inl err"
    using responseRejected_raises by blast
  ultimately show ?thesis
    by (simp add: x response_data_simps)
qed

lemma responseRejected_message:
  assumes "response e = Some r" "getProp (data r) ''msg'' = Inr m"
    and "ToString (js_or m (Str
             (if status r = 400 then msg_bad_request
              else if status r = 401 then msg_unauthorized
              else if status r = 403 then msg_forbidden
              else if status r = 404 then msg_not_found
              else if status r = 500 then msg_server_error
              else msg_request_failed (status r)))) = Inr s"
  shows "snd (responseRejected w e) = Inl (Error s)"
  using assms
  by (simp add: responseRejected_def reject_world new_Error_js_or split: if_splits)

lemma responseRejected_snd: "snd (responseRejected w e) = snd (responseRejected w' e)"
  by (simp add: responseRejected_def reject_world split: option.split sum.split)

lemma verb_rejected:
  assumes "x \<in> {apiClient_get T w u c, apiClient_post T w u d c, apiClient_put T w u d c,
                 apiClient_delete T w u c}"
    and "\<forall>c. settle (T c) = Inl e"
  shows "snd x = map_sum id data (snd (responseRejected w e))"
proof -
  from assms(1) obtain c' where x: "x = response_data (axiosInstance_request T w c')"
    by (rule verb_cases)
  obtain w' where "axiosInstance_request T w c' = responseRejected w' e"
    using assms(2) by (simp add: axiosInstance_request_def Let_def)
  moreover obtain err where "snd (responseRejected w' e) = Inl err"
    using responseRejected_raises by blast
  ultimately show ?thesis
    using responseRejected_snd [of w' e w] by (simp add: x response_data_simps)
qed

section \<open>Handling of status 401\<close>

text \<open>When the body of a 401 response allows the read of \<open>msg\<close>, the handler removes the
  token, assigns the login address to the location once, and rejects.\<close>

lemma unauthorized_clears_and_redirects:
  assumes "response e = Some r" "status r = 401" "getProp (data r) ''msg'' = Inr m"
  shows "getItem (fst (responseRejected w e)) ''token'' = None"
    and "location_href (fst (responseRejected w e)) = location_href w @ [''/login'']"
    and "snd (responseRejected w e) = Inl (new_Error (js_or m (Str msg_unauthorized)))"
  using assms
  by (simp_all add: responseRejected_def reject_def console_error_def set_location_href_def
      removeItem_def getItem_def)

text \<open>
  Claim C1. Every response with status 401 should leave the stored credential absent, start
  exactly one navigation to the login page, and still be raised to the caller. At a 401
  response whose body is the JSON value \<open>null\<close> the handler stops at the read of \<open>data.msg\<close>,
  before the token is removed and the location assigned: the call is rejected with a
  \<open>TypeError\<close>, the token \<open>abc\<close> is still stored and no navigation has started.
\<close>

theorem unauthorized_null_body_keeps_token:
  "responseRejected (logged_in ''abc'') (http_error 401 Null) = (logged_in ''abc'', Inl TypeError)
   \<and> getItem (fst (apiClient_get (answers 401 Null) (logged_in ''abc'') ''/users'' emptyConfig))
         ''token'' = Some ''abc''
   \<and> location_href (fst (apiClient_get (answers 401 Null) (logged_in ''abc'') ''/users''
         emptyConfig)) = []
   \<and> snd (apiClient_get (answers 401 Null) (logged_in ''abc'') ''/users'' emptyConfig)
         = Inl TypeError"
  by (simp add: responseRejected_def http_error_def apiClient_get_def axiosInstance_request_def
      answers_def settle_def validateStatus_def response_data_def Let_def logged_in_def
      getItem_def)

section \<open>The authorization header\<close>

text \<open>
  Claim C2. Whatever verb is called, a request that the call hands to the network carries
  the stored token as \<open>Bearer\<close> authorization header when a non-empty token is stored, also
  over a header of that name given by the caller; when no token is stored, or an empty one,
  its headers are the instance's defaults overridden by the caller's, so the client has
  attached none.
\<close>

theorem bearer_header_on_every_verb:
  assumes "x \<in> {apiClient_get T w u c, apiClient_post T w u d c, apiClient_put T w u d c,
                 apiClient_delete T w u c}"
    and "r \<in> set (drop (length (sent w)) (sent (fst x)))"
  shows "(\<forall>t. getItem w ''token'' = Some t \<and> t \<noteq> [] \<longrightarrow>
            headers r ''Authorization'' = Some (''Bearer '' @ t))
       \<and> (\<not> truthy_item (getItem w ''token'') \<longrightarrow> headers r = default_headers ++ headers c)"
proof -
  from assms(1) obtain c' where x: "x = response_data (axiosInstance_request T w c')"
    and h: "headers c' = headers c"
    by (rule verb_cases)
  from assms(2) have "r = requestFulfilled w (mergeConfig c')"
    by (simp add: x response_data_simps request_sent split: outcome.splits)
  then show ?thesis
    by (cases "getItem w ''token''") (simp_all add: requestFulfilled_headers mergeConfig_def h)
qed

text \<open>With the token \<open>abc\<close> stored, the request of a \<open>get\<close> carries \<open>Bearer abc\<close>; with
  nothing stored, the request of a \<open>post\<close> has no authorization header.\<close>

theorem bearer_header_on_every_verb_witness:
  "last (sent (fst (apiClient_get (answers 200 Null) (logged_in ''abc'') ''/users'' emptyConfig)))
     \<in> set (drop (length (sent (logged_in ''abc'')))
         (sent (fst (apiClient_get (answers 200 Null) (logged_in ''abc'') ''/users'' emptyConfig))))
   \<and> headers (last (sent (fst (apiClient_get (answers 200 Null) (logged_in ''abc'') ''/users''
         emptyConfig)))) ''Authorization'' = Some ''Bearer abc''
   \<and> last (sent (fst (apiClient_post (answers 200 Null) fresh_world ''/user'' NoData emptyConfig)))
     \<in> set (drop (length (sent fresh_world))
         (sent (fst (apiClient_post (answers 200 Null) fresh_world ''/user'' NoData emptyConfig))))
   \<and> headers (last (sent (fst (apiClient_post (answers 200 Null) fresh_world ''/user'' NoData
         emptyConfig)))) ''Authorization'' = None"
proof -
  let ?T = "answers 200 Null"
  let ?x = "apiClient_get ?T (logged_in ''abc'') ''/users'' emptyConfig"
  let ?y = "apiClient_post ?T fresh_world ''/user'' NoData emptyConfig"
  have mx: "?x \<in> {?x, apiClient_post ?T (logged_in ''abc'') ''/users'' NoData emptyConfig,
              apiClient_put ?T (logged_in ''abc'') ''/users'' NoData emptyConfig,
              apiClient_delete ?T (logged_in ''abc'') ''/users'' emptyConfig}"
    by simp
  have my: "?y \<in> {apiClient_get ?T fresh_world ''/user'' emptyConfig, ?y,
              apiClient_put ?T fresh_world ''/user'' NoData emptyConfig,
              apiClient_delete ?T fresh_world ''/user'' emptyConfig}"
    by simp
  have rx: "last (sent (fst ?x)) \<in> set (drop (length (sent (logged_in ''abc''))) (sent (fst ?x)))"
    by (simp add: apiClient_get_def axiosInstance_request_def answers_def settle_def
        validateStatus_def response_data_def Let_def logged_in_def)
  have ry: "last (sent (fst ?y)) \<in> set (drop (length (sent fresh_world)) (sent (fst ?y)))"
    by (simp add: apiClient_post_def axiosInstance_request_def answers_def settle_def
        validateStatus_def response_data_def Let_def fresh_world_def)
  have hx: "headers (last (sent (fst ?x))) ''Authorization'' = Some ''Bearer abc''"
    using bearer_header_on_every_verb [OF mx rx] by (simp add: logged_in_def getItem_def)
  have hy: "headers (last (sent (fst ?y))) ''Authorization'' = None"
    using bearer_header_on_every_verb [OF my ry]
    by (simp add: fresh_world_def getItem_def default_headers_def emptyConfig_def)
  from rx hx ry hy show ?thesis by simp
qed

section \<open>Failures and their messages\<close>

text \<open>
  Claim C3 has every status from 500 to 599 raised as a server error. The handler has an
  arm for 500 only: a 502 response without a message of its own is raised with the text of
  the default arm, "request failed (502)", the same way as the status 418, and not with the
  text of the arm for 500, although the specification gives 500 and 502 one cause and 418
  none.
\<close>

theorem status_502_generic_counterexample:
  "spec_cause (http_error 500 (Obj [])) = Some ServerError
   \<and> spec_cause (http_error 502 (Obj [])) = Some ServerError
   \<and> spec_cause (http_error 418 (Obj [])) = None
   \<and> snd (responseRejected fresh_world (http_error 500 (Obj []))) = Inl (Error msg_server_error)
   \<and> snd (responseRejected fresh_world (http_error 502 (Obj []))) =
        Inl (Error (msg_request_failed 502))
   \<and> snd (responseRejected fresh_world (http_error 418 (Obj []))) =
        Inl (Error (msg_request_failed 418))
   \<and> msg_request_failed 502 \<noteq> msg_server_error"
  by (simp add: spec_cause_def http_error_def responseRejected_def reject_world js_or_def
      new_Error_def msg_request_failed_def msg_server_error_def)

text \<open>
  Claim C3, as amended. Every failure ends in a rejection, for the handler and for the
  caller of a verb, never in a result. When the body's \<open>msg\<close> can be read and the message
  converted to a string, the caller of the verb receives an \<open>Error\<close> whose message is that
  \<open>msg\<close> if it is truthy and otherwise the text of the status: one text each for 400, 401,
  403, 404 and 500, and "request failed (status)" for every other status, 502 and 503 among
  them. Without a response the caller receives the network text when the request went out,
  and the raised error's own message when it did not.
\<close>

theorem failures_raised_with_message:
  assumes "x \<in> {apiClient_get T w u c, apiClient_post T w u d c, apiClient_put T w u d c,
                 apiClient_delete T w u c}"
  shows "(\<exists>err. snd (responseRejected w e) = Inl err)
   \<and> (\<forall>r m s. response e = Some r \<and> getProp (data r) ''msg'' = Inr m
         \<and> ToString (js_or m (Str
             (if status r = 400 then msg_bad_request
              else if status r = 401 then msg_unauthorized
              else if status r = 403 then msg_forbidden
              else if status r = 404 then msg_not_found
              else if status r = 500 then msg_server_error
              else msg_request_failed (status r)))) = Inr s \<longrightarrow>
         snd (responseRejected w e) = Inl (Error s))
   \<and> (response e = None \<and> request e \<longrightarrow>
         snd (responseRejected w e) = Inl (Error msg_network_error))
   \<and> (response e = None \<and> \<not> request e \<longrightarrow>
         snd (responseRejected w e) = Inl (Error (message e)))
   \<and> ((\<forall>c r. T c = Responded r \<longrightarrow> \<not> validateStatus (status r)) \<longrightarrow>
         (\<exists>err. snd x = Inl err))
   \<and> (\<forall>r m s. (\<forall>c. T c = Responded r) \<and> \<not> validateStatus (status r)
         \<and> getProp (data r) ''msg'' = Inr m
         \<and> ToString (js_or m (Str
             (if status r = 400 then msg_bad_request
              else if status r = 401 then msg_unauthorized
              else if status r = 403 then msg_forbidden
              else if status r = 404 then msg_not_found
              else if status r = 500 then msg_server_error
              else msg_request_failed (status r)))) = Inr s \<longrightarrow>
         snd x = Inl (Error s))
   \<and> (\<forall>a. (\<forall>c. T c = NoResponse a) \<longrightarrow> snd x = Inl (Error msg_network_error))
   \<and> (\<forall>a. (\<forall>c. T c = NotSent a) \<longrightarrow> snd x = Inl (Error a))"
proof -
  have h1: "\<exists>err. snd (responseRejected w e) = Inl err"
    by (rule responseRejected_raises)
  have h2: "\<forall>r m s. response e = Some r \<and> getProp (data r) ''msg'' = Inr m
         \<and> ToString (js_or m (Str
             (if status r = 400 then msg_bad_request
              else if status r = 401 then msg_unauthorized
              else if status r = 403 then msg_forbidden
              else if status r = 404 then msg_not_found
              else if status r = 500 then msg_server_error
              else msg_request_failed (status r)))) = Inr s \<longrightarrow>
         snd (responseRejected w e) = Inl (Error s)"
    by (simp add: responseRejected_message)
  have h3: "response e = None \<and> request e \<longrightarrow>
         snd (responseRejected w e) = Inl (Error msg_network_error)"
    by (simp add: responseRejected_def reject_world new_Error_def)
  have h4: "response e = None \<and> \<not> request e \<longrightarrow>
         snd (responseRejected w e) = Inl (Error (message e))"
    by (simp add: responseRejected_def reject_world new_Error_def)
  have v1: "(\<forall>c r. T c = Responded r \<longrightarrow> \<not> validateStatus (status r)) \<longrightarrow>
         (\<exists>err. snd x = Inl err)"
    using verb_failure_raised [OF _ assms] by blast
  have v2: "\<forall>r m s. (\<forall>c. T c = Responded r) \<and> \<not> validateStatus (status r)
         \<and> getProp (data r) ''msg'' = Inr m
         \<and> ToString (js_or m (Str
             (if status r = 400 then msg_bad_request
              else if status r = 401 then msg_unauthorized
              else if status r = 403 then msg_forbidden
              else if status r = 404 then msg_not_found
              else if status r = 500 then msg_server_error
              else msg_request_failed (status r)))) = Inr s \<longrightarrow>
         snd x = Inl (Error s)"
  proof (intro allI impI, elim conjE)
    fix r m s
    assume T: "\<forall>c. T c = Responded r" and st: "\<not> validateStatus (status r)"
      and m: "getProp (data r) ''msg'' = Inr m"
      and s: "ToString (js_or m (Str
             (if status r = 400 then msg_bad_request
              else if status r = 401 then msg_unauthorized
              else if status r = 403 then msg_forbidden
              else if status r = 404 then msg_not_found
              else if status r = 500 then msg_server_error
              else msg_request_failed (status r)))) = Inr s"
    have "\<forall>c. settle (T c) = Inl (http_error (status r) (data r))"
      using T st by (simp add: settle_def http_error_def)
    then have "snd x = map_sum id data (snd (responseRejected w (http_error (status r) (data r))))"
      by (rule verb_rejected [OF assms])
    moreover have "snd (responseRejected w (http_error (status r) (data r))) = Inl (Error s)"
    proof (rule responseRejected_message [where r = r and m = m])
      show "response (http_error (status r) (data r)) = Some r"
        by (simp add: http_error_def)
    qed (fact m s)+
    ultimately show "snd x = Inl (Error s)"
      by simp
  qed
  have v3: "\<forall>a. (\<forall>c. T c = NoResponse a) \<longrightarrow> snd x = Inl (Error msg_network_error)"
  proof (intro allI impI)
    fix a
    assume "\<forall>c. T c = NoResponse a"
    then have "\<forall>c. settle (T c) = Inl \<lparr>response = None, request = True, message = a\<rparr>"
      by (simp add: settle_def)
    then have "snd x = map_sum id data
        (snd (responseRejected w \<lparr>response = None, request = True, message = a\<rparr>))"
      by (rule verb_rejected [OF assms])
    then show "snd x = Inl (Error msg_network_error)"
      by (simp add: responseRejected_def reject_world new_Error_def)
  qed
  have v4: "\<forall>a. (\<forall>c. T c = NotSent a) \<longrightarrow> snd x = Inl (Error a)"
  proof (intro allI impI)
    fix a
    assume "\<forall>c. T c = NotSent a"
    then have "\<forall>c. settle (T c) = Inl \<lparr>response = None, request = False, message = a\<rparr>"
      by (simp add: settle_def)
    then have "snd x = map_sum id data
        (snd (responseRejected w \<lparr>response = None, request = False, message = a\<rparr>))"
      by (rule verb_rejected [OF assms])
    then show "snd x = Inl (Error a)"
      by (simp add: responseRejected_def reject_world new_Error_def)
  qed
  from h1 h2 h3 h4 v1 v2 v3 v4 show ?thesis
    by (intro conjI)
qed

text \<open>A \<open>get\<close> answered with 503 and an empty object is rejected with "request failed
  (503)"; a \<open>put\<close> answered with 403 and a message of the server's, with that message; a
  \<open>post\<close> that gets no response, with the network text; a \<open>delete\<close> whose request could not
  be sent, with the message of the error that was thrown.\<close>

theorem failures_raised_with_message_witness:
  "snd (apiClient_get (answers 503 (Obj [])) fresh_world ''/users'' emptyConfig) =
        Inl (Error (msg_request_failed 503))
   \<and> snd (apiClient_put (answers 403 (Obj [(''msg'', Str ''no access'')])) fresh_world ''/user/7''
          NoData emptyConfig) = Inl (Error ''no access'')
   \<and> snd (apiClient_post (\<lambda>c. NoResponse ''Network Error'') fresh_world ''/user'' NoData
          emptyConfig) = Inl (Error msg_network_error)
   \<and> snd (apiClient_delete (\<lambda>c. NotSent ''Invalid URL'') fresh_world ''/user/7'' emptyConfig) =
        Inl (Error ''Invalid URL'')"
proof -
  let ?A = "answers 503 (Obj [])"
  let ?B = "answers 403 (Obj [(''msg'', Str ''no access'')])"
  let ?N = "\<lambda>c::config. NoResponse ''Network Error''"
  let ?S = "\<lambda>c::config. NotSent ''Invalid URL''"
  let ?a = "apiClient_get ?A fresh_world ''/users'' emptyConfig"
  let ?b = "apiClient_put ?B fresh_world ''/user/7'' NoData emptyConfig"
  let ?n = "apiClient_post ?N fresh_world ''/user'' NoData emptyConfig"
  let ?s = "apiClient_delete ?S fresh_world ''/user/7'' emptyConfig"
  have ma: "?a \<in> {?a, apiClient_post ?A fresh_world ''/users'' NoData emptyConfig,
      apiClient_put ?A fresh_world ''/users'' NoData emptyConfig,
      apiClient_delete ?A fresh_world ''/users'' emptyConfig}"
    by simp
  have mb: "?b \<in> {apiClient_get ?B fresh_world ''/user/7'' emptyConfig,
      apiClient_post ?B fresh_world ''/user/7'' NoData emptyConfig, ?b,
      apiClient_delete ?B fresh_world ''/user/7'' emptyConfig}"
    by simp
  have mn: "?n \<in> {apiClient_get ?N fresh_world ''/user'' emptyConfig, ?n,
      apiClient_put ?N fresh_world ''/user'' NoData emptyConfig,
      apiClient_delete ?N fresh_world ''/user'' emptyConfig}"
    by simp
  have ms: "?s \<in> {apiClient_get ?S fresh_world ''/user/7'' emptyConfig,
      apiClient_post ?S fresh_world ''/user/7'' NoData emptyConfig,
      apiClient_put ?S fresh_world ''/user/7'' NoData emptyConfig, ?s}"
    by simp
  have a: "snd ?a = Inl (Error (msg_request_failed 503))"
    using failures_raised_with_message [OF ma]
    by (simp add: answers_def validateStatus_def js_or_def)
  have b: "snd ?b = Inl (Error ''no access'')"
    using failures_raised_with_message [OF mb]
    by (simp add: answers_def validateStatus_def js_or_def)
  have n: "snd ?n = Inl (Error msg_network_error)"
    using failures_raised_with_message [OF mn] by simp
  have s: "snd ?s = Inl (Error ''Invalid URL'')"
    using failures_raised_with_message [OF ms] by simp
  from a b n s show ?thesis by simp
qed

text \<open>A message that has no conversion to a string, here an object with a property
  \<open>toString\<close> of its own, is raised all the same, as the \<open>TypeError\<close> of the conversion.\<close>

lemma unconvertible_message_raises_TypeError:
  "snd (apiClient_get (answers 400 (Obj [(''msg'', Obj [(''toString'', Num ''1'')])])) fresh_world
          ''/users'' emptyConfig) = Inl TypeError"
  by (simp add: apiClient_get_def axiosInstance_request_def answers_def settle_def
      validateStatus_def response_data_def Let_def responseRejected_def reject_def js_or_def
      new_Error_def)

section \<open>Successful responses\<close>

text \<open>
  Claim C7 has a response with a status from 200 to 299 and a non-zero \<open>code\<close> reach the
  caller as an error. A 200 response with code 1 comes back from \<open>get\<close> as an ordinary
  result, the body as it was received.
\<close>

theorem nonzero_code_counterexample:
  "snd (apiClient_get (answers 200 (envelope ''1'' ''no such user'' Null)) fresh_world ''/user/7''
          emptyConfig) = Inr (envelope ''1'' ''no such user'' Null)"
  by (simp add: apiClient_get_def axiosInstance_request_def answers_def settle_def
      validateStatus_def response_data_def Let_def responseFulfilled_def)

text \<open>
  Claim C7, as amended. When the status is from 200 to 299 and the body carries a non-zero
  \<open>code\<close>, the caller of any verb receives the body as a result, not an error, and nothing is
  written to the console: the client does not look at \<open>code\<close>.
\<close>

theorem nonzero_code_returned_as_success:
  assumes "\<forall>c. T c = Responded r" "validateStatus (status r)"
    and "getProp (data r) ''code'' = Inr (Num n)" "n \<noteq> ''0''"
    and "x \<in> {apiClient_get T w u c, apiClient_post T w u d c, apiClient_put T w u d c,
                 apiClient_delete T w u c}"
  shows "snd x = Inr (data r) \<and> console (fst x) = console w"
  using verb_success(1,4) [OF assms(1,2,5)] by simp

text \<open>A 201 response to a \<open>post\<close> with code 1 in the body.\<close>

theorem nonzero_code_returned_as_success_witness:
  "getProp (data \<lparr>status = 201, data = envelope ''1'' ''duplicate'' Null\<rparr>) ''code'' = Inr (Num ''1'')
   \<and> ''1'' \<noteq> ''0''
   \<and> snd (apiClient_post (answers 201 (envelope ''1'' ''duplicate'' Null)) fresh_world ''/user''
          (Json (Obj [])) emptyConfig) = Inr (envelope ''1'' ''duplicate'' Null)"
proof -
  let ?r = "\<lparr>status = 201, data = envelope ''1'' ''duplicate'' Null\<rparr>"
  let ?T = "answers 201 (envelope ''1'' ''duplicate'' Null)"
  let ?x = "apiClient_post ?T fresh_world ''/user'' (Json (Obj [])) emptyConfig"
  have a: "\<forall>c. ?T c = Responded ?r"
    by (simp add: answers_def)
  have b: "validateStatus (status ?r)"
    by (simp add: validateStatus_def)
  have c: "getProp (data ?r) ''code'' = Inr (Num ''1'')"
    by (simp add: envelope_def)
  have d: "''1'' \<noteq> ''0''"
    by simp
  have m: "?x \<in> {apiClient_get ?T fresh_world ''/user'' emptyConfig, ?x,
      apiClient_put ?T fresh_world ''/user'' (Json (Obj [])) emptyConfig,
      apiClient_delete ?T fresh_world ''/user'' emptyConfig}"
    by simp
  from nonzero_code_returned_as_success [OF a b c d m] c show ?thesis
    by simp
qed

text \<open>
  Claim C8 has the verbs return the payload, taken out of the \<open>code\<close>, \<open>msg\<close>, \<open>data\<close>
  envelope. For a 200 response whose envelope holds the payload \<open>payload\<close>, \<open>get\<close> returns
  the envelope with its three properties, which is not the payload.
\<close>

theorem envelope_not_unwrapped_counterexample:
  "snd (apiClient_get (answers 200 (envelope ''0'' ''ok'' (Str ''payload''))) fresh_world ''/users''
          emptyConfig) =
     Inr (Obj [(''code'', Num ''0''), (''msg'', Str ''ok''), (''data'', Str ''payload'')])
   \<and> snd (apiClient_get (answers 200 (envelope ''0'' ''ok'' (Str ''payload''))) fresh_world ''/users''
          emptyConfig) \<noteq> Inr (Str ''payload'')"
  by (simp add: apiClient_get_def axiosInstance_request_def answers_def settle_def
      validateStatus_def response_data_def Let_def responseFulfilled_def envelope_def)

text \<open>
  Claim C8, as amended. For every response with a status from 200 to 299, whatever the
  verb, the caller receives the body of the response, \<open>response.data\<close>, as it arrived. When
  that body is an envelope, the caller has the whole envelope, never its payload alone; the
  payload is what the envelope's \<open>data\<close> property holds.
\<close>

theorem verbs_return_whole_body:
  assumes "\<forall>c. T c = Responded r" "validateStatus (status r)"
    and "x \<in> {apiClient_get T w u c, apiClient_post T w u d c, apiClient_put T w u d c,
                 apiClient_delete T w u c}"
  shows "snd x = Inr (data r)
    \<and> (\<forall>k m p. data r = envelope k m p \<longrightarrow>
           snd x = Inr (envelope k m p) \<and> snd x \<noteq> Inr p
           \<and> getProp (envelope k m p) ''data'' = Inr p)"
  using verb_success(1) [OF assms]
  by (auto simp: envelope_def dest: arg_cong [where f = size])

text \<open>A user list of five entries in an envelope.\<close>

theorem verbs_return_whole_body_witness:
  "validateStatus (status \<lparr>status = 200, data = envelope ''0'' ''ok'' (Obj [(''total'', Num ''5'')])\<rparr>)
   \<and> snd (apiClient_get (answers 200 (envelope ''0'' ''ok'' (Obj [(''total'', Num ''5'')]))) fresh_world
          ''/users'' emptyConfig) = Inr (envelope ''0'' ''ok'' (Obj [(''total'', Num ''5'')]))
   \<and> snd (apiClient_get (answers 200 (envelope ''0'' ''ok'' (Obj [(''total'', Num ''5'')]))) fresh_world
          ''/users'' emptyConfig) \<noteq> Inr (Obj [(''total'', Num ''5'')])"
proof -
  let ?p = "Obj [(''total'', Num ''5'')]"
  let ?r = "\<lparr>status = 200, data = envelope ''0'' ''ok'' ?p\<rparr>"
  let ?T = "answers 200 (envelope ''0'' ''ok'' ?p)"
  let ?x = "apiClient_get ?T fresh_world ''/users'' emptyConfig"
  have a: "\<forall>c. ?T c = Responded ?r"
    by (simp add: answers_def)
  have b: "validateStatus (status ?r)"
    by (simp add: validateStatus_def)
  have m: "?x \<in> {?x, apiClient_post ?T fresh_world ''/users'' NoData emptyConfig,
      apiClient_put ?T fresh_world ''/users'' NoData emptyConfig,
      apiClient_delete ?T fresh_world ''/users'' emptyConfig}"
    by simp
  from verbs_return_whole_body [OF a b m] b show ?thesis
    by (simp add: envelope_def)
qed

section \<open>Failures other than 401 leave the store alone\<close>

text \<open>
  Claim C9. When the server never answers 401, a call of any verb, however it ends (a
  status 400, 403, 404 or 5xx, no response at all, an error before the request was sent),
  leaves \<open>localStorage\<close> as it was, so a stored token is still there and the same, and
  starts no navigation.
\<close>

theorem other_failures_keep_credential:
  assumes "\<forall>c r. T c = Responded r \<longrightarrow> status r \<noteq> 401"
    and "x \<in> {apiClient_get T w u c, apiClient_post T w u d c, apiClient_put T w u d c,
                 apiClient_delete T w u c}"
  shows "getItem (fst x) ''token'' = getItem w ''token''
     \<and> localStorage (fst x) = localStorage w \<and> location_href (fst x) = location_href w"
proof -
  from assms(2) obtain c' where x: "x = response_data (axiosInstance_request T w c')"
    by (rule verb_cases)
  have "localStorage (fst (axiosInstance_request T w c')) = localStorage w
      \<and> location_href (fst (axiosInstance_request T w c')) = location_href w"
    using assms(1)
    by (auto simp: axiosInstance_request_def Let_def settle_def responseRejected_frame
        split: outcome.split)
  then show ?thesis
    by (simp add: x response_data_simps getItem_def)
qed

text \<open>A \<open>delete\<close> answered with 403 and a \<open>get\<close> that gets no response, both with the token
  \<open>abc\<close> stored.\<close>

theorem other_failures_keep_credential_witness:
  "getItem (fst (apiClient_delete (answers 403 (Obj [])) (logged_in ''abc'') ''/user/7''
          emptyConfig)) ''token'' = Some ''abc''
   \<and> getItem (fst (apiClient_get (\<lambda>c. NoResponse ''Network Error'') (logged_in ''abc'') ''/users''
          emptyConfig)) ''token'' = Some ''abc''"
proof -
  let ?T = "answers 403 (Obj [])"
  let ?N = "\<lambda>c::config. NoResponse ''Network Error''"
  let ?x = "apiClient_delete ?T (logged_in ''abc'') ''/user/7'' emptyConfig"
  let ?y = "apiClient_get ?N (logged_in ''abc'') ''/users'' emptyConfig"
  have a: "\<forall>c r. ?T c = Responded r \<longrightarrow> status r \<noteq> 401"
    by (auto simp: answers_def)
  have b: "\<forall>c r. ?N c = Responded r \<longrightarrow> status r \<noteq> 401"
    by simp
  have mx: "?x \<in> {apiClient_get ?T (logged_in ''abc'') ''/user/7'' emptyConfig,
      apiClient_post ?T (logged_in ''abc'') ''/user/7'' NoData emptyConfig,
      apiClient_put ?T (logged_in ''abc'') ''/user/7'' NoData emptyConfig, ?x}"
    by simp
  have my: "?y \<in> {?y, apiClient_post ?N (logged_in ''abc'') ''/users'' NoData emptyConfig,
      apiClient_put ?N (logged_in ''abc'') ''/users'' NoData emptyConfig,
      apiClient_delete ?N (logged_in ''abc'') ''/users'' emptyConfig}"
    by simp
  have x: "getItem (fst ?x) ''token'' = Some ''abc''"
    using other_failures_keep_credential [OF a mx] by (simp add: getItem_def logged_in_def)
  have y: "getItem (fst ?y) ''token'' = Some ''abc''"
    using other_failures_keep_credential [OF b my] by (simp add: getItem_def logged_in_def)
  from x y show ?thesis by simp
qed

section \<open>Login and logout\<close>

text \<open>
  Claim C4 has \<open>login\<close> raise a configuration error when the successful response has no
  \<open>access_token\<close>. For a 200 response whose payload is an empty object, \<open>login\<close> returns the
  body as its result and raises nothing; no token is stored.
\<close>

theorem login_without_token_counterexample:
  "snd (login (answers 200 (envelope ''0'' ''ok'' (Obj []))) fresh_world
          \<lparr>username = ''admin'', password = ''123456''\<rparr>) = Inr (envelope ''0'' ''ok'' (Obj []))
   \<and> getItem (fst (login (answers 200 (envelope ''0'' ''ok'' (Obj []))) fresh_world
          \<lparr>username = ''admin'', password = ''123456''\<rparr>)) ''token'' = None"
  by (simp add: login_def apiClient_post_def axiosInstance_request_def answers_def settle_def
      validateStatus_def response_data_def Let_def fresh_world_def getItem_def envelope_def
      responseFulfilled_def)

text \<open>
  Claim C4, as amended. When the login call succeeds and the body's \<open>data\<close> is falsy, or
  its \<open>access_token\<close> is missing or falsy, \<open>login\<close> raises nothing: it returns the body as
  its result, stores nothing, and leaves \<open>localStorage\<close> as it was before the call.
\<close>

theorem login_without_token_returns_body:
  assumes "\<forall>c. T c = Responded r" "validateStatus (status r)"
    and "getProp (data r) ''data'' = Inr d"
    and "\<not> truthy d \<or> (\<exists>t. getProp d ''access_token'' = Inr t \<and> \<not> truthy t)"
  shows "snd (login T w ps) = Inr (data r) \<and> localStorage (fst (login T w ps)) = localStorage w"
proof -
  let ?c = "emptyConfig\<lparr>headers :=
              [''Content-Type'' \<mapsto> ''application/x-www-form-urlencoded'']\<rparr>"
  let ?d = "Form [(''username'', username ps), (''password'', password ps)]"
  let ?x = "apiClient_post T w ''/login'' ?d ?c"
  have m: "?x \<in> {apiClient_get T w ''/login'' ?c, ?x, apiClient_put T w ''/login'' ?d ?c,
              apiClient_delete T w ''/login'' ?c}"
    by simp
  have s: "snd ?x = Inr (data r)" and l: "localStorage (fst ?x) = localStorage w"
    using verb_success(1,2) [OF assms(1,2) m] by simp_all
  obtain w1 where x: "?x = (w1, Inr (data r))" and w1: "localStorage w1 = localStorage w"
    using s l by (cases ?x) simp
  show ?thesis
    using assms(3,4) w1 by (auto simp: login_def x)
qed

text \<open>A 200 response whose payload has a \<open>token_type\<close> and no \<open>access_token\<close>, with an
  earlier token \<open>old\<close> in the store: \<open>login\<close> succeeds and the old token stays.\<close>

theorem login_without_token_returns_body_witness:
  "(\<forall>c. answers 200 (envelope ''0'' ''ok'' (Obj [(''token_type'', Str ''bearer'')])) c =
        Responded \<lparr>status = 200,
          data = envelope ''0'' ''ok'' (Obj [(''token_type'', Str ''bearer'')])\<rparr>)
   \<and> snd (login (answers 200 (envelope ''0'' ''ok'' (Obj [(''token_type'', Str ''bearer'')])))
          (logged_in ''old'') \<lparr>username = ''admin'', password = ''123456''\<rparr>) =
        Inr (envelope ''0'' ''ok'' (Obj [(''token_type'', Str ''bearer'')]))
   \<and> getItem (fst (login (answers 200 (envelope ''0'' ''ok'' (Obj [(''token_type'', Str ''bearer'')])))
          (logged_in ''old'') \<lparr>username = ''admin'', password = ''123456''\<rparr>)) ''token'' =
        Some ''old''"
proof -
  let ?d = "Obj [(''token_type'', Str ''bearer'')]"
  let ?r = "\<lparr>status = 200, data = envelope ''0'' ''ok'' ?d\<rparr>"
  have a: "\<forall>c. answers 200 (envelope ''0'' ''ok'' ?d) c = Responded ?r"
    by (simp add: answers_def)
  have b: "validateStatus (status ?r)"
    by (simp add: validateStatus_def)
  have c: "getProp (data ?r) ''data'' = Inr ?d"
    by (simp add: envelope_def)
  have d: "\<not> truthy ?d \<or> (\<exists>t. getProp ?d ''access_token'' = Inr t \<and> \<not> truthy t)"
    by simp
  note t = login_without_token_returns_body [OF a b c d, of "logged_in ''old''"
      "\<lparr>username = ''admin'', password = ''123456''\<rparr>"]
  have s: "snd (login (answers 200 (envelope ''0'' ''ok'' ?d)) (logged_in ''old'')
          \<lparr>username = ''admin'', password = ''123456''\<rparr>) = Inr (envelope ''0'' ''ok'' ?d)"
    using t by simp
  have "getItem (fst (login (answers 200 (envelope ''0'' ''ok'' ?d)) (logged_in ''old'')
          \<lparr>username = ''admin'', password = ''123456''\<rparr>)) ''token'' =
        localStorage (logged_in ''old'') ''token''"
    using t by (simp add: getItem_def)
  also have "\<dots> = Some ''old''"
    by (simp add: logged_in_def)
  finally show ?thesis
    using a s by simp
qed

text \<open>
  Claim C5. However the call to the logout endpoint ends (a result, a server error, no
  response, an error before the request was sent), no token is stored once \<open>logout\<close> has
  completed, and the presence check answers no.
\<close>

theorem logout_always_clears:
  "getItem (fst (logout T w)) ''token'' = None \<and> \<not> isAuthenticated (fst (logout T w))"
  by (simp add: logout_def isAuthenticated_def getItem_def removeItem_def split: prod.split)

text \<open>A logout whose request gets no response, with the token \<open>abc\<close> stored.\<close>

theorem logout_always_clears_witness:
  "getItem (fst (logout (\<lambda>c. NoResponse ''Network Error'') (logged_in ''abc''))) ''token'' = None"
  using logout_always_clears [of "\<lambda>c. NoResponse ''Network Error''" "logged_in ''abc''"]
  by (rule conjunct1)

section \<open>The navigation guard\<close>

text \<open>The guard decides each navigation from the token stored at that moment and from the
  path and the \<open>requiresAuth\<close> mark of the target: two stores with the same token give the
  same decision, and a decision taken after the token was removed or set follows the new
  store.\<close>

lemma guard_decisions:
  "(truthy (requiresAuth to) \<and> \<not> truthy_item (getItem w ''token'') \<longrightarrow>
      beforeEach w to = RedirectTo ''login'')
   \<and> (path to = ''/login'' \<and> truthy_item (getItem w ''token'') \<longrightarrow>
      beforeEach w to = RedirectTo ''dashboard'')
   \<and> (\<not> (truthy (requiresAuth to) \<and> \<not> truthy_item (getItem w ''token''))
      \<and> \<not> (path to = ''/login'' \<and> truthy_item (getItem w ''token'')) \<longrightarrow>
      beforeEach w to = Proceed)
   \<and> (getItem w ''token'' = getItem w' ''token'' \<longrightarrow> beforeEach w to = beforeEach w' to)
   \<and> (truthy (requiresAuth to) \<longrightarrow>
      beforeEach (removeItem w ''token'') to = RedirectTo ''login'')
   \<and> (path to = ''/login'' \<and> t \<noteq> [] \<longrightarrow>
      beforeEach (setItem w ''token'' t) to = RedirectTo ''dashboard'')"
  by (simp add: beforeEach_def Let_def getItem_def removeItem_def setItem_def)

text \<open>
  Claim C6. A navigation to the login route while a token is stored should be redirected
  to the route \<open>dashboard\<close>. The guard compares the path that was asked for with the text
  \<open>/login\<close>. The addresses \<open>/login/\<close> and \<open>/LOGIN\<close> match the login route as well, and for
  them the guard lets the navigation proceed with the token \<open>abc\<close> stored; only the address
  \<open>/login\<close> itself is redirected.
\<close>

theorem login_route_other_spelling_proceeds:
  "beforeEach (logged_in ''abc'')
      \<lparr>path = ''/login/'', name = ''login'', requiresAuth = Bool False\<rparr> = Proceed
   \<and> beforeEach (logged_in ''abc'')
      \<lparr>path = ''/LOGIN'', name = ''login'', requiresAuth = Bool False\<rparr> = Proceed
   \<and> beforeEach (logged_in ''abc'')
      \<lparr>path = ''/login'', name = ''login'', requiresAuth = Bool False\<rparr> = RedirectTo ''dashboard''"
  by (simp add: beforeEach_def Let_def getItem_def logged_in_def)

section \<open>The empty token\<close>

text \<open>
  Claim C10. When the stored token is the empty string, \<open>isAuthenticated\<close> answers yes,
  since the stored value is not \<open>null\<close>; the request interceptor returns the request as it
  got it, with no authorization header added; and the guard decides as it does without a
  token: a route that requires authentication is redirected to \<open>login\<close>, any other
  navigation proceeds, the login page included.
\<close>

theorem empty_token_presence_checks_disagree:
  assumes "getItem w ''token'' = Some []"
  shows "isAuthenticated w \<and> requestFulfilled w c = c
     \<and> beforeEach w to = (if truthy (requiresAuth to) then RedirectTo ''login'' else Proceed)"
  using assms
  by (simp add: isAuthenticated_def requestFulfilled_def beforeEach_def Let_def)

text \<open>A store that holds the empty string as token.\<close>

theorem empty_token_presence_checks_disagree_witness:
  "getItem (logged_in []) ''token'' = Some []
   \<and> isAuthenticated (logged_in [])
   \<and> requestFulfilled (logged_in []) emptyConfig = emptyConfig
   \<and> beforeEach (logged_in []) \<lparr>path = ''/dashboard'', name = ''dashboard'', requiresAuth = Bool True\<rparr> =
        RedirectTo ''login''"
proof -
  have a: "getItem (logged_in []) ''token'' = Some []"
    by (simp add: getItem_def logged_in_def)
  from empty_token_presence_checks_disagree [OF a, of emptyConfig
      "\<lparr>path = ''/dashboard'', name = ''dashboard'', requiresAuth = Bool True\<rparr>"] a
  show ?thesis by simp
qed


end
